theory Spec2Isabelle
  imports Complex_Main "HOL-Library.Word"
begin

section \<open>Strings (Go package strings, on the ASCII range)\<close>

text \<open>
  Go strings are byte sequences; they are modelled as \<^typ>\<open>string\<close> (a list of 8-bit
  characters). \<open>strings.ToLower\<close> maps \<open>'A'..'Z'\<close> to \<open>'a'..'z'\<close>; bytes outside the
  ASCII letters are left as they are (a non-ASCII rune never lowers to one of the ASCII
  letters of \<open>false\<close>, which is all that the code below compares with).
\<close>

definition to_lower_byte :: "char \<Rightarrow> char" where
  "to_lower_byte c =
     (if (65::nat) \<le> of_char c \<and> of_char c \<le> (90::nat)
      then char_of (of_char c + (32::nat)) else c)"

definition strings_ToLower :: "string \<Rightarrow> string" where
  "strings_ToLower s = map to_lower_byte s"

text \<open>\<open>strings.Join(elems, sep)\<close>.\<close>

fun strings_Join :: "string list \<Rightarrow> string \<Rightarrow> string" where
  "strings_Join [] sep = []"
| "strings_Join [w] sep = w"
| "strings_Join (w # v # ws) sep = w @ sep @ strings_Join (v # ws) sep"

section \<open>excellent/types/text.go\<close>

text \<open>\<open>XText\<close> wraps a native string.\<close>

type_synonym XText = string

definition XText_Native :: "XText \<Rightarrow> string" where
  "XText_Native x = x"

definition XText_Empty :: "XText \<Rightarrow> bool" where
  "XText_Empty x = (XText_Native x = [])"

definition XText_ToXBoolean :: "XText \<Rightarrow> bool" where
  "XText_ToXBoolean x = (\<not> XText_Empty x \<and> strings_ToLower (XText_Native x) \<noteq> ''false'')"

text \<open>
  The reading of "equals \<open>false\<close> ignoring case" used to state the property: the text
  has five characters, each being the lower-case or the upper-case form of the
  corresponding letter of \<open>false\<close>.
\<close>

definition is_false_ignoring_case :: "string \<Rightarrow> bool" where
  "is_false_ignoring_case s =
     (case s of
        [a, b, c, d, e] \<Rightarrow>
          (a = CHR ''f'' \<or> a = CHR ''F'') \<and> (b = CHR ''a'' \<or> b = CHR ''A'') \<and>
          (c = CHR ''l'' \<or> c = CHR ''L'') \<and> (d = CHR ''s'' \<or> d = CHR ''S'') \<and>
          (e = CHR ''e'' \<or> e = CHR ''E'')
      | _ \<Rightarrow> False)"

definition is_space_byte :: "char \<Rightarrow> bool" where
  "is_space_byte c = (c = CHR '' '' \<or> c = CHR 0x09 \<or> c = CHR 0x0A \<or> c = CHR 0x0D)"

section \<open>Go integers and package time\<close>

text \<open>
  Go's \<open>/\<close> on integers truncates toward zero, unlike \<open>div\<close> on \<^typ>\<open>int\<close>.
\<close>

definition go_quot :: "int \<Rightarrow> int \<Rightarrow> int" where
  "go_quot a b = sgn a * sgn b * (\<bar>a\<bar> div \<bar>b\<bar>)"

text \<open>
  A \<open>time.Duration\<close> is a signed 64-bit count of nanoseconds; its arithmetic wraps
  around. Go's \<open>int\<close> is taken to be 64 bits wide, so that the conversion
  \<open>time.Duration(n)\<close> of an \<open>int\<close> keeps every bit.
\<close>

type_synonym Duration = "64 word"

definition Second :: Duration where
  "Second = 1000000000"

definition Minute :: Duration where
  "Minute = 60 * Second"

definition Hour :: Duration where
  "Hour = 60 * Minute"

definition minDuration :: Duration where
  "minDuration = word_of_int (- (2 ^ 63))"

definition maxDuration :: Duration where
  "maxDuration = word_of_int (2 ^ 63 - 1)"

text \<open>Division of durations, as Go computes it on \<open>int64\<close>.\<close>

definition Duration_quot :: "Duration \<Rightarrow> Duration \<Rightarrow> int" where
  "Duration_quot d u = go_quot (sint d) (sint u)"

text \<open>
  A \<open>time.Location\<close> is modelled as a zone with a fixed offset, in seconds east of UTC.
  A \<open>time.Time\<close> is an instant, counted in nanoseconds since the Unix epoch, together
  with the location it is shown in.
\<close>

record Location =
  loc_name :: string
  loc_offset :: int

definition UTC :: Location where
  "UTC = \<lparr>loc_name = ''UTC'', loc_offset = 0\<rparr>"

record Time =
  unix_nsec :: int
  location :: Location

definition Time_UTC :: "Time \<Rightarrow> Time" where
  "Time_UTC t = t\<lparr>location := UTC\<rparr>"

definition Time_Add :: "Time \<Rightarrow> Duration \<Rightarrow> Time" where
  "Time_Add t d = t\<lparr>unix_nsec := unix_nsec t + sint d\<rparr>"

text \<open>
  \<open>t.Sub(u)\<close>: the duration \<open>t - u\<close>; when it does not fit a \<open>Duration\<close> the largest
  or the smallest duration is returned.
\<close>

definition Time_Sub :: "Time \<Rightarrow> Time \<Rightarrow> Duration" where
  "Time_Sub t u =
     (let d = unix_nsec t - unix_nsec u in
      if d < - (2 ^ 63) then minDuration
      else if 2 ^ 63 - 1 < d then maxDuration
      else word_of_int d)"

subsection \<open>The proleptic Gregorian calendar\<close>

definition isLeap :: "int \<Rightarrow> bool" where
  "isLeap year = (year mod 4 = 0 \<and> (year mod 100 \<noteq> 0 \<or> year mod 400 = 0))"

text \<open>\<open>daysBefore[m]\<close>: the days of a non-leap year before month \<open>m + 1\<close>.\<close>

definition daysBefore :: "int list" where
  "daysBefore = [0, 31, 59, 90, 120, 151, 181, 212, 243, 273, 304, 334, 365]"

text \<open>The number of days from 1970-01-01 to the first of January of a year.\<close>

definition days_before_year :: "int \<Rightarrow> int" where
  "days_before_year year =
     365 * (year - 1970)
       + ((year - 1) div 4 - (year - 1) div 100 + (year - 1) div 400) - 477"

text \<open>
  The day number (days since 1970-01-01) of day \<open>day\<close> of month \<open>month\<close> (1 to 12) of a
  year. The day is added as it is: day 31 of a month of 28 days is the third day of the
  month after it.
\<close>

definition days_from_civil :: "int \<Rightarrow> int \<Rightarrow> int \<Rightarrow> int" where
  "days_from_civil year month day =
     days_before_year year + daysBefore ! nat (month - 1)
       + (if isLeap year \<and> 3 \<le> month then 1 else 0) + (day - 1)"

text \<open>
  \<open>time.Date\<close>: months outside 1 to 12 carry into the year, every other field is added
  as it is, and the wall clock reading is taken in the given location.
\<close>

definition Time_Date :: "int \<Rightarrow> int \<Rightarrow> int \<Rightarrow> int \<Rightarrow> int \<Rightarrow> int \<Rightarrow> int \<Rightarrow> Location \<Rightarrow> Time" where
  "Time_Date year month day hour minute sec nsec loc =
     (let m = month - 1;
          year' = year + m div 12;
          month' = m mod 12 + 1;
          days = days_from_civil year' month' day;
          wall = days * 86400 + hour * 3600 + minute * 60 + sec
      in \<lparr>unix_nsec = (wall - loc_offset loc) * 1000000000 + nsec, location = loc\<rparr>)"

text \<open>The day number of the civil date that a time shows in its location.\<close>

definition local_day :: "Time \<Rightarrow> int" where
  "local_day t = (unix_nsec t div 1000000000 + loc_offset (location t)) div 86400"

text \<open>
  The year and the day of the year (from 0) of a day number, cutting off cycles of 400,
  100, 4 and 1 years from 0001-01-01 as \<open>absDate\<close> does.
\<close>

definition year_and_yday :: "int \<Rightarrow> int \<times> int" where
  "year_and_yday z =
     (let d = z + 719162;
          n400 = d div 146097;
          d1 = d - 146097 * n400;
          n100 = min 3 (d1 div 36524);
          d2 = d1 - 36524 * n100;
          n4 = d2 div 1461;
          d3 = d2 - 1461 * n4;
          n1 = min 3 (d3 div 365);
          d4 = d3 - 365 * n1
      in (400 * n400 + 100 * n100 + 4 * n4 + n1 + 1, d4))"

text \<open>The month and the day of the month of a day of the year.\<close>

definition month_and_day :: "bool \<Rightarrow> int \<Rightarrow> int \<times> int" where
  "month_and_day leap yday =
     (if leap \<and> yday = 31 + 29 - 1 then (2, 29)
      else
        let day = (if leap \<and> yday > 31 + 29 - 1 then yday - 1 else yday);
            month = day div 31;
            end = daysBefore ! nat (month + 1)
        in if day \<ge> end then (month + 2, day - end + 1)
           else (month + 1, day - daysBefore ! nat month + 1))"

definition civil_from_days :: "int \<Rightarrow> int \<times> int \<times> int" where
  "civil_from_days z =
     (let (year, yday) = year_and_yday z;
          (month, day) = month_and_day (isLeap year) yday
      in (year, month, day))"

definition Time_Year :: "Time \<Rightarrow> int" where
  "Time_Year t = fst (civil_from_days (local_day t))"

definition Time_Month :: "Time \<Rightarrow> int" where
  "Time_Month t = fst (snd (civil_from_days (local_day t)))"

definition Time_Day :: "Time \<Rightarrow> int" where
  "Time_Day t = snd (snd (civil_from_days (local_day t)))"

section \<open>Excellent values (package types)\<close>

text \<open>
  The variants of \<open>XValue\<close>. Numbers are decimals, modelled as rationals; an \<open>XError\<close>
  carries its message.
\<close>

datatype XValue =
    XNil
  | XText string
  | XNumber rat
  | XBoolean bool
  | XDateTime Time
  | XArray "XValue list"
  | XError string

text \<open>The environment of an evaluation (\<open>utils.Environment\<close>).\<close>

record Environment =
  env_Timezone :: Location
  env_Now :: Time

definition IsXError :: "XValue \<Rightarrow> bool" where
  "IsXError x = (case x of XError e \<Rightarrow> True | _ \<Rightarrow> False)"

definition NewXNumberFromInt :: "int \<Rightarrow> XValue" where
  "NewXNumberFromInt n = XNumber (of_int n)"

text \<open>
  The conversions of one variant into another (a number to text, a text to a number or
  to a datetime, ...) are methods of package \<open>types\<close> and of package \<open>utils\<close> that
  are not part of this development: they are parameters of the conversion functions.
  A conversion that can fail returns the message of the error on the left.
\<close>

record conv =
  text_of :: "XValue \<Rightarrow> string"
  boolean_of :: "XValue \<Rightarrow> string + bool"
  number_of :: "XValue \<Rightarrow> string + rat"
  integer_of :: "rat \<Rightarrow> string + int"
  datetime_of :: "XValue \<Rightarrow> string + Time"

text \<open>
  \<open>ToXText\<close> (text.go): nil is the empty text, an error is returned as the error, any
  other value is reduced and converted.
\<close>

definition ToXText :: "conv \<Rightarrow> XValue \<Rightarrow> string + XText" where
  "ToXText cv x =
     (case x of
        XNil \<Rightarrow> Inr []
      | XError e \<Rightarrow> Inl e
      | XText s \<Rightarrow> Inr s
      | _ \<Rightarrow> Inr (text_of cv x))"

text \<open>
  Modelled from the spec: \<open>ToXBoolean\<close>, \<open>ToXNumber\<close>, \<open>ToInteger\<close> and
  \<open>ToXDateTime\<close> of package \<open>types\<close> are missing from the sources. As the spec has it,
  conversions are total, an Error is propagated and never raised, and a conversion error
  short-circuits; a value of the target variant converts to itself, and a text converts
  to a boolean by \<open>XText.ToXBoolean\<close>.
\<close>

definition ToXBoolean :: "conv \<Rightarrow> XValue \<Rightarrow> string + bool" where
  "ToXBoolean cv x =
     (case x of
        XError e \<Rightarrow> Inl e
      | XBoolean b \<Rightarrow> Inr b
      | XText s \<Rightarrow> Inr (XText_ToXBoolean s)
      | _ \<Rightarrow> boolean_of cv x)"

definition ToXNumber :: "conv \<Rightarrow> XValue \<Rightarrow> string + rat" where
  "ToXNumber cv x =
     (case x of
        XError e \<Rightarrow> Inl e
      | XNumber n \<Rightarrow> Inr n
      | _ \<Rightarrow> number_of cv x)"

definition ToInteger :: "conv \<Rightarrow> XValue \<Rightarrow> string + int" where
  "ToInteger cv x =
     (case ToXNumber cv x of
        Inl e \<Rightarrow> Inl e
      | Inr n \<Rightarrow> integer_of cv n)"

definition ToXDateTime :: "conv \<Rightarrow> XValue \<Rightarrow> string + Time" where
  "ToXDateTime cv x =
     (case x of
        XError e \<Rightarrow> Inl e
      | XDateTime t \<Rightarrow> Inr t
      | _ \<Rightarrow> datetime_of cv x)"

text \<open>
  Modelled from the spec: \<open>IsEmpty\<close> of package \<open>types\<close> is missing from the sources.
  The empty values are nil, the empty text and the empty array (what \<open>default\<close>
  documents: "not an error or nil or empty text", and \<open>default(array(), "value")\<close> is
  \<open>value\<close>).
\<close>

definition IsEmpty :: "XValue \<Rightarrow> bool" where
  "IsEmpty x =
     (case x of
        XNil \<Rightarrow> True
      | XText s \<Rightarrow> length s = 0
      | XArray xs \<Rightarrow> length xs = 0
      | _ \<Rightarrow> False)"

text \<open>
  A table of conversions for concrete evaluations: a number converts to the integer it
  is equal to, every conversion between different variants that the examples do not need
  is reported as an error.
\<close>

definition strict_conv :: conv where
  "strict_conv =
     \<lparr>text_of = (\<lambda>x. []),
      boolean_of = (\<lambda>x. Inl ''not a boolean''),
      number_of = (\<lambda>x. Inl ''not a number''),
      integer_of = (\<lambda>n. if of_int \<lfloor>n\<rfloor> = n then Inr \<lfloor>n\<rfloor> else Inl ''not an integer''),
      datetime_of = (\<lambda>x. Inl ''not a datetime'')\<rparr>"

definition Guayaquil :: Location where
  "Guayaquil = \<lparr>loc_name = ''America/Guayaquil'', loc_offset = - 18000\<rparr>"

definition test_env :: Environment where
  "test_env =
     \<lparr>env_Timezone = Guayaquil,
      env_Now = Time_Date 2018 4 11 13 24 30 123456000 Guayaquil\<rparr>"

section \<open>Built-in functions (package functions)\<close>

subsection \<open>Type conversion\<close>

definition Text :: "conv \<Rightarrow> Environment \<Rightarrow> XValue \<Rightarrow> XValue" where
  "Text cv env v = (case ToXText cv v of Inl xerr \<Rightarrow> XError xerr | Inr str \<Rightarrow> XText str)"

definition Boolean :: "conv \<Rightarrow> Environment \<Rightarrow> XValue \<Rightarrow> XValue" where
  "Boolean cv env v = (case ToXBoolean cv v of Inl xerr \<Rightarrow> XError xerr | Inr b \<Rightarrow> XBoolean b)"

definition Number :: "conv \<Rightarrow> Environment \<Rightarrow> XValue \<Rightarrow> XValue" where
  "Number cv env v = (case ToXNumber cv v of Inl xerr \<Rightarrow> XError xerr | Inr num \<Rightarrow> XNumber num)"

text \<open>\<open>Array\<close> returns the first of its arguments that is an error, if there is one.\<close>

definition Array :: "Environment \<Rightarrow> XValue list \<Rightarrow> XValue" where
  "Array env args = (case find IsXError args of Some arg \<Rightarrow> arg | None \<Rightarrow> XArray args)"

subsection \<open>Boolean functions\<close>

fun And :: "conv \<Rightarrow> Environment \<Rightarrow> XValue list \<Rightarrow> XValue" where
  "And cv env [] = XBoolean True"
| "And cv env (arg # args) =
     (case ToXBoolean cv arg of
        Inl xerr \<Rightarrow> XError xerr
      | Inr asBool \<Rightarrow> if \<not> asBool then XBoolean False else And cv env args)"

fun Or :: "conv \<Rightarrow> Environment \<Rightarrow> XValue list \<Rightarrow> XValue" where
  "Or cv env [] = XBoolean False"
| "Or cv env (arg # args) =
     (case ToXBoolean cv arg of
        Inl xerr \<Rightarrow> XError xerr
      | Inr asBool \<Rightarrow> if asBool then XBoolean True else Or cv env args)"

definition If_fn :: "conv \<Rightarrow> Environment \<Rightarrow> XValue \<Rightarrow> XValue \<Rightarrow> XValue \<Rightarrow> XValue" where
  "If_fn cv env test arg1 arg2 =
     (case ToXBoolean cv test of
        Inl err \<Rightarrow> XError err
      | Inr asBool \<Rightarrow> if asBool then arg1 else arg2)"

subsection \<open>Utility functions\<close>

definition Default :: "Environment \<Rightarrow> XValue \<Rightarrow> XValue \<Rightarrow> XValue" where
  "Default env test def = (if IsEmpty test \<or> IsXError test then def else test)"

section \<open>Flows: events, actions and waits\<close>

subsection \<open>References, contacts and runs\<close>

record ChannelReference =
  channel_uuid :: string
  channel_name :: string

record Contact =
  contact_uuid :: string
  contact_name :: string
  contact_channel :: "ChannelReference option"

text \<open>
  A run, as far as the code below reads it: \<open>run.Contact()\<close> is the contact of the run,
  or nil. The results stand for the rest of the state of a run.
\<close>

record FlowRun =
  run_uuid :: string
  run_contact :: "Contact option"
  run_results :: "(string \<times> string) list"

record Step =
  step_uuid :: string
  step_node :: string

subsection \<open>Events (package events)\<close>

text \<open>
  Modelled from the spec: the constructors \<open>NewFatalErrorEvent\<close> and
  \<open>NewContactChannelChangedEvent\<close> of package \<open>events\<close> are missing from the sources.
  Every event has \<open>created_on\<close>, a type and type-specific fields; as \<open>NewNothingWait\<close>
  does (nothing\_wait.go), a constructor fills in the base event (the time of creation) and
  its own fields.
\<close>

datatype EventBody =
    FatalError string
  | ContactChannelChanged "ChannelReference option"

record Event =
  created_on :: Time
  body :: EventBody

definition NewFatalErrorEvent :: "Time \<Rightarrow> string \<Rightarrow> Event" where
  "NewFatalErrorEvent now err = \<lparr>created_on = now, body = FatalError err\<rparr>"

definition NewContactChannelChangedEvent :: "Time \<Rightarrow> ChannelReference option \<Rightarrow> Event" where
  "NewContactChannelChangedEvent now channel =
     \<lparr>created_on = now, body = ContactChannelChanged channel\<rparr>"

text \<open>The event log: \<open>log.Add\<close> appends an event.\<close>

type_synonym EventLog = "Event list"

definition EventLog_Add :: "EventLog \<Rightarrow> Event \<Rightarrow> EventLog" where
  "EventLog_Add elog e = elog @ [e]"

subsection \<open>flows/actions/set\_contact\_channel.go\<close>

record SetContactChannelAction =
  action_uuid :: string
  Channel :: "ChannelReference option"

text \<open>
  \<open>Execute\<close> is given the run, the step and the event log, and the reading of the clock
  for the event it creates. The model returns the three things the method could have
  changed or returned: the run, the event log and the error (always nil).
\<close>

definition SetContactChannelAction_Execute ::
  "Time \<Rightarrow> SetContactChannelAction \<Rightarrow> FlowRun \<Rightarrow> Step \<Rightarrow> EventLog
     \<Rightarrow> FlowRun \<times> EventLog \<times> string option" where
  "SetContactChannelAction_Execute now a run step elog =
     (if run_contact run = None
      then (run,
            EventLog_Add elog
              (NewFatalErrorEvent now ''can't execute action in session without a contact''),
            None)
      else (run, EventLog_Add elog (NewContactChannelChangedEvent now (Channel a)), None))"

subsection \<open>flows/waits/base.go\<close>

text \<open>
  A wait that can time out: the timeout in seconds (a Go \<open>int\<close>) or nil, and the time
  at which the wait times out, or nil.
\<close>

record baseTimeoutWait =
  wait_Timeout :: "64 word option"
  wait_TimeoutOn :: "Time option"

definition baseTimeoutWait_Timeout :: "baseTimeoutWait \<Rightarrow> 64 word option" where
  "baseTimeoutWait_Timeout w = wait_Timeout w"

definition baseTimeoutWait_TimeoutOn :: "baseTimeoutWait \<Rightarrow> Time option" where
  "baseTimeoutWait_TimeoutOn w = wait_TimeoutOn w"

text \<open>\<open>baseWait.Begin\<close> does nothing.\<close>

definition baseWait_Begin :: "baseTimeoutWait \<Rightarrow> FlowRun \<Rightarrow> baseTimeoutWait" where
  "baseWait_Begin w run = w"

text \<open>
  \<open>Begin\<close>, given the reading \<open>now\<close> of \<open>time.Now()\<close>. The product
  \<open>time.Second * time.Duration(timeout)\<close> is a product of 64-bit integers.
\<close>

definition baseTimeoutWait_Begin :: "Time \<Rightarrow> baseTimeoutWait \<Rightarrow> FlowRun \<Rightarrow> baseTimeoutWait" where
  "baseTimeoutWait_Begin now w run =
     baseWait_Begin
       (case wait_Timeout w of
          Some timeout \<Rightarrow> w\<lparr>wait_TimeoutOn := Some (Time_Add (Time_UTC now) (Second * timeout))\<rparr>
        | None \<Rightarrow> w)
       run"

section \<open>The legacy migrator: variable mappers\<close>

text \<open>How \<open>@extra\<close> variables are migrated.\<close>

datatype ExtraVarsMapping = ExtraAsWebhookJSON | ExtraAsTriggerParams | ExtraAsFunction

text \<open>
  The mapper of \<open>@extra\<close>. Its embedded \<open>varMapper\<close> is never filled in and both of
  its methods are overridden, so that only the path and the mode remain.
\<close>

record extraMapper =
  path :: string
  extraAs :: ExtraVarsMapping

text \<open>
  A \<open>varMapper\<close>; its maps are association lists read with \<^const>\<open>map_of\<close>, and a map
  that can be nil is an option. An \<open>item\<close> is what a map of type
  \<open>map[string]interface{}\<close> holds and what \<open>Resolve\<close> returns: a string, a
  \<open>varMapper\<close> or an \<open>extraMapper\<close>.
\<close>

datatype varMapper =
  VarMapper
    (substitutions: "(string \<times> string) list")
    (base: string)
    (baseVars: "(string \<times> item) list")
    (arbitraryNesting: string)
    (arbitraryVars: "(string \<times> item) list option")
and item =
    ItemString string
  | ItemVarMapper varMapper
  | ItemExtraMapper extraMapper

definition rebase :: "varMapper \<Rightarrow> string \<Rightarrow> varMapper" where
  "rebase v prefix =
     (let newBase = (if prefix \<noteq> [] then prefix @ ''.'' @ base v else base v)
      in VarMapper (substitutions v) newBase (baseVars v) (arbitraryNesting v) (arbitraryVars v))"

definition varMapper_Resolve :: "varMapper \<Rightarrow> string \<Rightarrow> item" where
  "varMapper_Resolve v key0 =
     (let key = strings_ToLower key0 in
      case map_of (substitutions v) key of
        Some substitute \<Rightarrow> ItemString substitute
      | None \<Rightarrow>
          let newPath = (if base v \<noteq> [] then [base v] else []) in
          case map_of (baseVars v) key of
            Some (ItemVarMapper asVarMapper) \<Rightarrow>
              if length newPath > 0
              then ItemVarMapper (rebase asVarMapper (strings_Join newPath ''.''))
              else ItemVarMapper asVarMapper
          | Some (ItemExtraMapper asExtraMapper) \<Rightarrow> ItemExtraMapper asExtraMapper
          | Some (ItemString s) \<Rightarrow> ItemString (strings_Join (newPath @ [s]) ''.'')
          | None \<Rightarrow>
              let newPath1 = (if arbitraryNesting v \<noteq> [] then newPath @ [arbitraryNesting v]
                              else newPath);
                  newPath2 = newPath1 @ [key]
              in case arbitraryVars v of
                   Some vars \<Rightarrow> ItemVarMapper (VarMapper [] (strings_Join newPath2 ''.'') vars [] None)
                 | None \<Rightarrow> ItemString (strings_Join newPath2 ''.''))"

definition varMapper_String :: "varMapper \<Rightarrow> string" where
  "varMapper_String v =
     (case map_of (substitutions v) ''__default__'' of Some sub \<Rightarrow> sub | None \<Rightarrow> base v)"

definition extraMapper_Resolve :: "extraMapper \<Rightarrow> string \<Rightarrow> item" where
  "extraMapper_Resolve m key =
     (let newPath = (if path m \<noteq> [] then [path m] else []) @ [key] in
      if path m = [] \<and> key = ''flow''
      then ItemVarMapper
             (VarMapper [] ''parent.results'' [] []
                (Some [(''category'', ItemString ''category_localized''),
                       (''text'', ItemString ''input''),
                       (''time'', ItemString ''created_on'')]))
      else ItemExtraMapper \<lparr>path = strings_Join newPath ''.'', extraAs = extraAs m\<rparr>)"

definition extraMapper_String :: "extraMapper \<Rightarrow> string" where
  "extraMapper_String m =
     (case extraAs m of
        ExtraAsWebhookJSON \<Rightarrow> ''run.webhook.json.'' @ path m
      | ExtraAsTriggerParams \<Rightarrow> ''trigger.params.'' @ path m
      | ExtraAsFunction \<Rightarrow>
          ''if(is_error(run.webhook.json.'' @ path m @ ''), trigger.params.'' @ path m
            @ '', run.webhook.json.'' @ path m @ '')'')"

text \<open>
  The mappers of the top-level identifiers. The URN schemes (\<open>urns.ValidSchemes\<close>, of
  another repository) are a parameter; each scheme adds a mapper to the contact.
\<close>

definition scheme_mapper :: "string \<Rightarrow> string \<times> item" where
  "scheme_mapper scheme =
     (scheme,
      ItemVarMapper
        (VarMapper
           [(''__default__'', ''format_urn(contact.urns.'' @ scheme @ '')''),
            (''display'', ''format_urn(contact.urns.'' @ scheme @ '')''),
            (''scheme'', ''contact.urns.'' @ scheme @ ''.0.scheme''),
            (''path'', ''contact.urns.'' @ scheme @ ''.0.path''),
            (''urn'', ''contact.urns.'' @ scheme @ ''.0'')]
           (''urns.'' @ scheme) [] [] None))"

definition contact_mapper :: "string list \<Rightarrow> varMapper" where
  "contact_mapper schemes =
     VarMapper
       [(''groups'', ''join(contact.groups, \",\")'')]
       ''contact''
       (map scheme_mapper schemes @
        [(''uuid'', ItemString ''uuid''),
         (''id'', ItemString ''id''),
         (''name'', ItemString ''name''),
         (''first_name'', ItemString ''first_name''),
         (''language'', ItemString ''language''),
         (''tel_e164'', ItemString ''urns.tel.0.path'')])
       ''fields''
       None"

definition newMigrationBaseVars :: "string list \<Rightarrow> (string \<times> item) list" where
  "newMigrationBaseVars schemes =
     (let contact = ItemVarMapper (contact_mapper schemes) in
      [(''contact'', contact),
       (''flow'',
          ItemVarMapper
            (VarMapper [] [] [(''contact'', contact)] ''run.results''
               (Some [(''category'', ItemString ''category_localized''),
                      (''text'', ItemString ''input''),
                      (''time'', ItemString ''created_on'')]))),
       (''parent'',
          ItemVarMapper
            (VarMapper [] ''parent'' [(''contact'', contact)] ''results''
               (Some [(''category'', ItemString ''category_localized'')]))),
       (''child'',
          ItemVarMapper
            (VarMapper [] ''child'' [(''contact'', contact)] ''results''
               (Some [(''category'', ItemString ''category_localized'')]))),
       (''step'',
          ItemVarMapper
            (VarMapper
               [(''__default__'', ''run.input''),
                (''value'', ''run.input''),
                (''text'', ''run.input.text''),
                (''attachments'', ''run.input.attachments''),
                (''time'', ''run.input.created_on'')]
               [] [(''contact'', contact)] [] None)),
       (''channel'',
          ItemVarMapper
            (VarMapper
               [(''__default__'', ''contact.channel.address''),
                (''name'', ''contact.channel.name''),
                (''tel'', ''contact.channel.address''),
                (''tel_e164'', ''contact.channel.address'')]
               [] [] [] None)),
       (''date'',
          ItemVarMapper
            (VarMapper
               [(''__default__'', ''now()''),
                (''now'', ''now()''),
                (''today'', ''today()''),
                (''tomorrow'', ''datetime_add(today(), 1, \"D\")''),
                (''yesterday'', ''datetime_add(today(), -1, \"D\")'')]
               [] [] [] None))])"

text \<open>
  The mapper for migrating expressions: the base variables, with the mapper of
  \<open>extra\<close> stored under its key.
\<close>

definition newMigrationVarMapper :: "string list \<Rightarrow> ExtraVarsMapping \<Rightarrow> varMapper" where
  "newMigrationVarMapper schemes mode =
     VarMapper []
       []
       ((''extra'', ItemExtraMapper \<lparr>path = [], extraAs = mode\<rparr>) # newMigrationBaseVars schemes)
       []
       None"

text \<open>
  Modelled from the spec: the walk of the migrator along a dotted reference is missing
  from the sources. Member access resolves repeatedly: each segment of the reference is
  resolved against the mapper reached so far, and the rewritten expression is the string
  form of what the last segment resolves to. A plain string has no members.
\<close>

definition item_Resolve :: "item \<Rightarrow> string \<Rightarrow> item option" where
  "item_Resolve it key =
     (case it of
        ItemString s \<Rightarrow> None
      | ItemVarMapper v \<Rightarrow> Some (varMapper_Resolve v key)
      | ItemExtraMapper m \<Rightarrow> Some (extraMapper_Resolve m key))"

definition item_String :: "item \<Rightarrow> string" where
  "item_String it =
     (case it of
        ItemString s \<Rightarrow> s
      | ItemVarMapper v \<Rightarrow> varMapper_String v
      | ItemExtraMapper m \<Rightarrow> extraMapper_String m)"

fun resolve_path :: "item \<Rightarrow> string list \<Rightarrow> item option" where
  "resolve_path it [] = Some it"
| "resolve_path it (key # keys) =
     (case item_Resolve it key of None \<Rightarrow> None | Some it' \<Rightarrow> resolve_path it' keys)"

definition migrate_reference :: "string list \<Rightarrow> ExtraVarsMapping \<Rightarrow> string list \<Rightarrow> string option" where
  "migrate_reference schemes mode keys =
     map_option item_String
       (resolve_path (ItemVarMapper (newMigrationVarMapper schemes mode)) keys)"

section \<open>Built-in functions on words and dates\<close>

text \<open>
  A function that indexes its arguments (\<open>args[1]\<close>) panics when the argument is
  missing; the result is then \<^const>\<open>None\<close>. The registry calls these functions with
  an argument count that it has checked.
\<close>



subsection \<open>word\_slice\<close>





subsection \<open>datetime\_from\_parts\<close>

definition DateTimeFromParts :: "conv \<Rightarrow> Environment \<Rightarrow> XValue list \<Rightarrow> XValue option" where
  "DateTimeFromParts cv env args =
     (case args of
        [] \<Rightarrow> None
      | arg0 # rest \<Rightarrow>
          (case ToInteger cv arg0 of
             Inl xerr \<Rightarrow> Some (XError xerr)
           | Inr year \<Rightarrow>
               (case rest of
                  [] \<Rightarrow> None
                | arg1 # rest' \<Rightarrow>
                    (case ToInteger cv arg1 of
                       Inl xerr \<Rightarrow> Some (XError xerr)
                     | Inr month \<Rightarrow>
                         if month < 1 \<or> month > 12
                         then Some (XError ''invalid value for month, must be 1-12'')
                         else
                           (case rest' of
                              [] \<Rightarrow> None
                            | arg2 # rest'' \<Rightarrow>
                                (case ToInteger cv arg2 of
                                   Inl xerr \<Rightarrow> Some (XError xerr)
                                 | Inr day \<Rightarrow>
                                     Some (XDateTime
                                       (Time_Date year month day 0 0 0 0 (env_Timezone env)))))))))"

subsection \<open>datetime\_diff\<close>

text \<open>Decimal digits, for \<open>%d\<close> in the message of an error.\<close>

fun nat_digits :: "nat \<Rightarrow> string" where
  "nat_digits n =
     (if n < 10 then [char_of (48 + n)] else nat_digits (n div 10) @ [char_of (48 + n mod 10)])"

declare nat_digits.simps [simp del]

definition Itoa :: "int \<Rightarrow> string" where
  "Itoa i = (if i < 0 then CHR ''-'' # nat_digits (nat (- i)) else nat_digits (nat i))"

text \<open>
  Modelled from the spec: \<open>utils.DaysBetween\<close> and \<open>utils.MonthsBetween\<close> are missing
  from the sources. Days are counted as civil days, the calendar days between the two
  dates, independent of the time of day; months are a calendar count, the months between
  the month of one date and the month of the other.
\<close>

definition DaysBetween :: "Time \<Rightarrow> Time \<Rightarrow> int" where
  "DaysBetween date1 date2 = local_day date1 - local_day date2"

definition MonthsBetween :: "Time \<Rightarrow> Time \<Rightarrow> int" where
  "MonthsBetween date1 date2 =
     (Time_Month date1 - Time_Month date2) + (Time_Year date1 - Time_Year date2) * 12"

definition DateTimeDiff :: "conv \<Rightarrow> Environment \<Rightarrow> XValue list \<Rightarrow> XValue" where
  "DateTimeDiff cv env args =
     (if length args \<noteq> 3
      then XError (''takes exactly three arguments, received '' @ Itoa (int (length args)))
      else
        case ToXDateTime cv (args ! 0) of
          Inl xerr \<Rightarrow> XError xerr
        | Inr date1 \<Rightarrow>
            (case ToXDateTime cv (args ! 1) of
               Inl xerr \<Rightarrow> XError xerr
             | Inr date2 \<Rightarrow>
                 (case ToXText cv (args ! 2) of
                    Inl xerr \<Rightarrow> XError xerr
                  | Inr unit \<Rightarrow>
                      let duration = Time_Sub date1 date2 in
                      if unit = ''s'' then NewXNumberFromInt (Duration_quot duration Second)
                      else if unit = ''m'' then NewXNumberFromInt (Duration_quot duration Minute)
                      else if unit = ''h'' then NewXNumberFromInt (Duration_quot duration Hour)
                      else if unit = ''D'' then NewXNumberFromInt (DaysBetween date1 date2)
                      else if unit = ''W''
                        then NewXNumberFromInt (go_quot (DaysBetween date1 date2) 7)
                      else if unit = ''M'' then NewXNumberFromInt (MonthsBetween date1 date2)
                      else if unit = ''Y''
                        then NewXNumberFromInt (Time_Year date1 - Time_Year date2)
                      else XError (''unknown unit: '' @ unit
                                     @ '', must be one of s, m, h, D, W, M, Y''))))"

text \<open>
  What it is for an integer \<open>q\<close> to be the quotient of \<open>d\<close> by a positive \<open>u\<close>
  truncated toward zero: \<open>q\<close> has the sign of \<open>d\<close> and its magnitude is the number of
  whole units in the magnitude of \<open>d\<close>.
\<close>

definition truncated_toward_zero :: "int \<Rightarrow> int \<Rightarrow> int \<Rightarrow> bool" where
  "truncated_toward_zero q d u =
     (\<bar>q\<bar> * u \<le> \<bar>d\<bar> \<and> \<bar>d\<bar> < (\<bar>q\<bar> + 1) * u \<and> 0 \<le> q * d)"

section \<open>Properties of text conversion\<close>

lemma to_lower_byte_eq_lower:
  assumes "(97::nat) \<le> of_char k" "of_char k \<le> (122::nat)"
    and K: "of_char k = of_char K + (32::nat)"
  shows "to_lower_byte c = k \<longleftrightarrow> c = k \<or> c = K"
proof (cases "(65::nat) \<le> of_char c \<and> of_char c \<le> (90::nat)")
  case True
  have lt: "of_char c + (32::nat) < 256" using True by simp
  have "to_lower_byte c = k \<longleftrightarrow> char_of (of_char c + (32::nat)) = k"
    using True by (simp add: to_lower_byte_def)
  also have "\<dots> \<longleftrightarrow> (of_char c + (32::nat)) mod 256 = of_char k"
    by (metis of_char_of char_of_char)
  also have "\<dots> \<longleftrightarrow> of_char c = (of_char K :: nat)"
    using lt K by auto
  also have "\<dots> \<longleftrightarrow> c = K"
    by simp
  finally have "to_lower_byte c = k \<longleftrightarrow> c = K" .
  moreover have "c \<noteq> k" using True assms by auto
  ultimately show ?thesis by simp
next
  case False
  then have "to_lower_byte c = c" unfolding to_lower_byte_def by (simp only: if_False)
  moreover have "c \<noteq> K" using False assms by auto
  ultimately show ?thesis by auto
qed

lemma to_lower_byte_f: "to_lower_byte c = CHR ''f'' \<longleftrightarrow> c = CHR ''f'' \<or> c = CHR ''F''"
  by (rule to_lower_byte_eq_lower) simp_all

lemma to_lower_byte_a: "to_lower_byte c = CHR ''a'' \<longleftrightarrow> c = CHR ''a'' \<or> c = CHR ''A''"
  by (rule to_lower_byte_eq_lower) simp_all

lemma to_lower_byte_l: "to_lower_byte c = CHR ''l'' \<longleftrightarrow> c = CHR ''l'' \<or> c = CHR ''L''"
  by (rule to_lower_byte_eq_lower) simp_all

lemma to_lower_byte_s: "to_lower_byte c = CHR ''s'' \<longleftrightarrow> c = CHR ''s'' \<or> c = CHR ''S''"
  by (rule to_lower_byte_eq_lower) simp_all

lemma to_lower_byte_e: "to_lower_byte c = CHR ''e'' \<longleftrightarrow> c = CHR ''e'' \<or> c = CHR ''E''"
  by (rule to_lower_byte_eq_lower) simp_all

lemma strings_ToLower_false:
  "strings_ToLower s = ''false'' \<longleftrightarrow> is_false_ignoring_case s"
proof (cases s)
  case Nil
  then show ?thesis by (simp add: strings_ToLower_def is_false_ignoring_case_def)
next
  case (Cons a s1)
  note s = this
  show ?thesis
  proof (cases s1)
    case Nil
    then show ?thesis using s by (simp add: strings_ToLower_def is_false_ignoring_case_def)
  next
    case (Cons b s2)
    note s1 = this
    show ?thesis
    proof (cases s2)
      case Nil
      then show ?thesis using s s1
        by (simp add: strings_ToLower_def is_false_ignoring_case_def)
    next
      case (Cons c s3)
      note s2 = this
      show ?thesis
      proof (cases s3)
        case Nil
        then show ?thesis using s s1 s2
          by (simp add: strings_ToLower_def is_false_ignoring_case_def)
      next
        case (Cons d s4)
        note s3 = this
        show ?thesis
        proof (cases s4)
          case Nil
          then show ?thesis using s s1 s2 s3
            by (simp add: strings_ToLower_def is_false_ignoring_case_def)
        next
          case (Cons e s5)
          then show ?thesis using s s1 s2 s3
            by (cases s5)
              (simp_all add: strings_ToLower_def is_false_ignoring_case_def
                 to_lower_byte_f to_lower_byte_a to_lower_byte_l to_lower_byte_s
                 to_lower_byte_e)
        qed
      qed
    qed
  qed
qed

lemma XText_ToXBoolean_iff:
  "XText_ToXBoolean x = False \<longleftrightarrow> x = [] \<or> is_false_ignoring_case x"
  by (auto simp: XText_ToXBoolean_def XText_Empty_def XText_Native_def
        strings_ToLower_false)

text \<open>
  Claim C10. Converting a text value to boolean yields false exactly when the text is
  the empty string or equals \<open>false\<close> ignoring case; every other text converts to true,
  among them \<open>0\<close> and every non-empty text made of white space only.
\<close>

theorem XText_ToXBoolean_false_iff:
  "(XText_ToXBoolean x = False \<longleftrightarrow> x = [] \<or> is_false_ignoring_case x) \<and>
   XText_ToXBoolean ''0'' = True \<and>
   (x \<noteq> [] \<and> list_all is_space_byte x \<longrightarrow> XText_ToXBoolean x = True)"
proof -
  have zero: "XText_ToXBoolean ''0'' = True"
    using XText_ToXBoolean_iff [of "''0''"] by (simp add: is_false_ignoring_case_def)
  have sp: "XText_ToXBoolean x = True" if ne: "x \<noteq> []" and all: "list_all is_space_byte x"
  proof -
    obtain a xs where x: "x = a # xs" using ne by (cases x) auto
    have "is_space_byte a" using all x by simp
    then have "a \<noteq> CHR ''f''" "a \<noteq> CHR ''F''" by (auto simp: is_space_byte_def)
    then have "\<not> is_false_ignoring_case x"
      using x by (auto simp: is_false_ignoring_case_def split: list.splits)
    then show ?thesis using XText_ToXBoolean_iff [of x] ne by auto
  qed
  show ?thesis using XText_ToXBoolean_iff [of x] zero sp by blast
qed

theorem XText_ToXBoolean_false_iff_witness:
  "XText_ToXBoolean ''FaLsE'' = False \<and> XText_ToXBoolean [] = False \<and>
   XText_ToXBoolean ''0'' = True \<and> XText_ToXBoolean ''  '' = True"
proof -
  have a: "XText_ToXBoolean ''FaLsE'' = False"
    using XText_ToXBoolean_false_iff [of "''FaLsE''"]
    by (simp add: is_false_ignoring_case_def)
  have b: "XText_ToXBoolean [] = False"
    using XText_ToXBoolean_false_iff [of "[]"] by simp
  have c: "XText_ToXBoolean ''0'' = True \<and> XText_ToXBoolean ''  '' = True"
    using XText_ToXBoolean_false_iff [of "''  ''"] by (simp add: is_space_byte_def)
  show ?thesis using a b c by simp
qed

section \<open>Errors as arguments\<close>

lemma ToXBoolean_XError: "ToXBoolean cv (XError e) = Inl e"
  by (simp add: ToXBoolean_def)

lemma And_first_error:
  "list_all (\<lambda>a. ToXBoolean cv a = Inr True) pre \<Longrightarrow>
   And cv env (pre @ XError e # post) = XError e"
  by (induction pre) (simp_all add: ToXBoolean_XError)

lemma Or_first_error:
  "list_all (\<lambda>a. ToXBoolean cv a = Inr False) pre \<Longrightarrow>
   Or cv env (pre @ XError e # post) = XError e"
  by (induction pre) (simp_all add: ToXBoolean_XError)

lemma find_first_error:
  "\<not> list_ex IsXError pre \<Longrightarrow> find IsXError (pre @ XError e # post) = Some (XError e)"
  by (induction pre) (simp_all add: IsXError_def)

lemma Array_first_error:
  "\<not> list_ex IsXError pre \<Longrightarrow> Array env (pre @ XError e # post) = XError e"
  by (simp add: Array_def find_first_error)

lemma If_selects:
  "ToXBoolean cv test = Inr b \<Longrightarrow> If_fn cv env test arg1 arg2 = (if b then arg1 else arg2)"
  by (simp add: If_fn_def)

lemma Default_XError: "Default env (XError e) def = def"
  by (simp add: Default_def IsXError_def)

text \<open>
  Claim C1, as the code has it. An Error passed to \<open>text\<close>, \<open>boolean\<close> or \<open>number\<close>
  is the result, with its message; \<open>array\<close> returns the first of its arguments that is
  an Error; \<open>and\<close> returns an Error argument when every argument before it is true,
  \<open>or\<close> when every argument before it is false; \<open>if(test, t, f)\<close> returns an Error
  \<open>test\<close> as it is and otherwise the branch that \<open>test\<close> selects, whatever the
  other branch holds, so that an Error in \<open>t\<close> or \<open>f\<close> is the result only when its
  branch is selected; \<open>default(test, fallback)\<close> returns \<open>fallback\<close> when \<open>test\<close>
  is an Error.
\<close>

theorem Error_arguments:
  "Text cv env (XError e) = XError e \<and>
   Boolean cv env (XError e) = XError e \<and>
   Number cv env (XError e) = XError e \<and>
   (\<not> list_ex IsXError pre \<longrightarrow> Array env (pre @ XError e # post) = XError e) \<and>
   (list_all (\<lambda>a. ToXBoolean cv a = Inr True) pre \<longrightarrow>
      And cv env (pre @ XError e # post) = XError e) \<and>
   (list_all (\<lambda>a. ToXBoolean cv a = Inr False) pre \<longrightarrow>
      Or cv env (pre @ XError e # post) = XError e) \<and>
   If_fn cv env (XError e) arg1 arg2 = XError e \<and>
   (ToXBoolean cv test = Inr True \<longrightarrow> If_fn cv env test arg1 arg2 = arg1) \<and>
   (ToXBoolean cv test = Inr False \<longrightarrow> If_fn cv env test arg1 arg2 = arg2) \<and>
   Default env (XError e) def = def"
proof -
  have conv: "Text cv env (XError e) = XError e" "Boolean cv env (XError e) = XError e"
    "Number cv env (XError e) = XError e"
    by (simp_all add: Text_def Boolean_def Number_def ToXText_def ToXBoolean_def
          ToXNumber_def)
  have test: "If_fn cv env (XError e) arg1 arg2 = XError e"
    by (simp add: If_fn_def ToXBoolean_XError)
  show ?thesis
    using conv test Array_first_error [of pre env e post]
      And_first_error [of cv pre env e post] Or_first_error [of cv pre env e post]
      If_selects [of cv test True env arg1 arg2] If_selects [of cv test False env arg1 arg2]
      Default_XError [of env e "def"]
    by simp
qed

theorem Error_arguments_witness:
  "Array test_env [XNumber 1, XError ''boom'', XError ''late''] = XError ''boom'' \<and>
   And strict_conv test_env [XBoolean True, XError ''boom'', XBoolean False] = XError ''boom'' \<and>
   Or strict_conv test_env [XBoolean False, XError ''boom'', XBoolean True] = XError ''boom'' \<and>
   If_fn strict_conv test_env (XText ''yes'') (XError ''boom'') (XText ''bar'') = XError ''boom'' \<and>
   If_fn strict_conv test_env (XText ''False'') (XText ''foo'') (XError ''boom'') = XError ''boom''"
proof -
  have t: "ToXBoolean strict_conv (XText ''yes'') = Inr True"
    using XText_ToXBoolean_iff [of "''yes''"]
    by (simp add: ToXBoolean_def is_false_ignoring_case_def)
  have f: "ToXBoolean strict_conv (XText ''False'') = Inr False"
    using XText_ToXBoolean_iff [of "''False''"]
    by (simp add: ToXBoolean_def is_false_ignoring_case_def)
  show ?thesis
    using Error_arguments [of strict_conv test_env "''boom''" "[XNumber 1]" "[XError ''late'']"
        "XError ''boom''" "XText ''bar''" "XText ''yes''" "XText ''fallback''"]
      Error_arguments [of strict_conv test_env "''boom''" "[XBoolean True]" "[XBoolean False]"
        "XText ''foo''" "XError ''boom''" "XText ''False''" "XText ''fallback''"]
      Error_arguments [of strict_conv test_env "''boom''" "[XBoolean False]" "[XBoolean True]"
        "XText ''foo''" "XError ''boom''" "XText ''False''" "XText ''fallback''"]
      t f
    by (simp add: IsXError_def ToXBoolean_def)
qed

text \<open>
  The claim as it was stated fails: \<open>if\<close> with a true test returns its second argument
  although the third is an Error, and \<open>default\<close> with an Error as its test returns the
  fallback; neither result is an Error.
\<close>

theorem Error_arguments_counterexample:
  "If_fn strict_conv test_env (XBoolean True) (XText ''foo'') (XError ''boom'') = XText ''foo'' \<and>
   \<not> IsXError (If_fn strict_conv test_env (XBoolean True) (XText ''foo'') (XError ''boom'')) \<and>
   Default test_env (XError ''boom'') (XText ''fallback'') = XText ''fallback'' \<and>
   \<not> IsXError (Default test_env (XError ''boom'') (XText ''fallback''))"
  by (simp add: If_fn_def ToXBoolean_def Default_def IsXError_def)

section \<open>The fallback of default\<close>

lemma IsEmpty_cases:
  "IsEmpty x \<longleftrightarrow> x = XNil \<or> x = XText [] \<or> x = XArray []"
  by (cases x) (simp_all add: IsEmpty_def)

lemma IsXError_cases: "IsXError x \<longleftrightarrow> (\<exists>e. x = XError e)"
  by (cases x) (simp_all add: IsXError_def)

text \<open>
  Claim C5. \<open>default(test, fallback)\<close> returns \<open>fallback\<close> when \<open>test\<close> is an empty
  value (nil, the empty text, the empty array) or an Error, and returns \<open>test\<close>
  unchanged otherwise; so, unless the two arguments are equal, the result is the
  fallback exactly when \<open>test\<close> is empty or an Error.
\<close>

theorem Default_fallback:
  "(IsEmpty test \<or> IsXError test \<longrightarrow> Default env test def = def) \<and>
   (\<not> (IsEmpty test \<or> IsXError test) \<longrightarrow> Default env test def = test) \<and>
   (test \<noteq> def \<longrightarrow> (Default env test def = def \<longleftrightarrow> IsEmpty test \<or> IsXError test)) \<and>
   (IsEmpty test \<or> IsXError test \<longleftrightarrow>
      test = XNil \<or> test = XText [] \<or> test = XArray [] \<or> (\<exists>e. test = XError e))"
  by (auto simp: Default_def IsEmpty_cases IsXError_cases)

theorem Default_fallback_witness:
  "Default test_env (XText ''10'') (XText ''20'') = XText ''10'' \<and>
   Default test_env (XText []) (XText ''value'') = XText ''value'' \<and>
   Default test_env (XArray []) (XText ''value'') = XText ''value'' \<and>
   Default test_env (XArray [XNumber 1, XNumber 2]) (XText ''value'')
     = XArray [XNumber 1, XNumber 2] \<and>
   Default test_env (XError ''invalid date'') (XText ''today'') = XText ''today''"
  using Default_fallback [of "XText ''10''" test_env "XText ''20''"]
    Default_fallback [of "XText []" test_env "XText ''value''"]
    Default_fallback [of "XArray []" test_env "XText ''value''"]
    Default_fallback [of "XArray [XNumber 1, XNumber 2]" test_env "XText ''value''"]
    Default_fallback [of "XError ''invalid date''" test_env "XText ''today''"]
  by (simp add: IsEmpty_def IsXError_def)

section \<open>Executing an action\<close>

text \<open>
  Claim C9. Executing an action leaves the run, and with it the contact, unchanged: its
  only effect is to append events to the event log. The action of the sources,
  \<open>set_contact_channel\<close>, appends exactly one event, a \<open>contact_channel_changed\<close>
  event or, when the run has no contact, a \<open>fatal_error\<close> event, and returns no error.
\<close>

theorem SetContactChannelAction_Execute_appends:
  "fst (SetContactChannelAction_Execute now a run step elog) = run \<and>
   snd (snd (SetContactChannelAction_Execute now a run step elog)) = None \<and>
   (run_contact run = None \<longrightarrow>
      fst (snd (SetContactChannelAction_Execute now a run step elog))
        = elog @ [\<lparr>created_on = now,
                   body = FatalError ''can't execute action in session without a contact''\<rparr>]) \<and>
   (run_contact run \<noteq> None \<longrightarrow>
      fst (snd (SetContactChannelAction_Execute now a run step elog))
        = elog @ [\<lparr>created_on = now, body = ContactChannelChanged (Channel a)\<rparr>])"
  by (simp add: SetContactChannelAction_Execute_def EventLog_Add_def NewFatalErrorEvent_def
        NewContactChannelChangedEvent_def)

theorem SetContactChannelAction_Execute_appends_witness:
  "fst (snd (SetContactChannelAction_Execute (env_Now test_env)
       \<lparr>action_uuid = ''8eebd020'',
        Channel = Some \<lparr>channel_uuid = ''4bb288a0'', channel_name = ''Facebook''\<rparr>\<rparr>
       \<lparr>run_uuid = ''r1'', run_contact = None, run_results = []\<rparr>
       \<lparr>step_uuid = ''s1'', step_node = ''n1''\<rparr> []))
     = [\<lparr>created_on = env_Now test_env,
         body = FatalError ''can't execute action in session without a contact''\<rparr>] \<and>
   fst (snd (SetContactChannelAction_Execute (env_Now test_env)
       \<lparr>action_uuid = ''8eebd020'',
        Channel = Some \<lparr>channel_uuid = ''4bb288a0'', channel_name = ''Facebook''\<rparr>\<rparr>
       \<lparr>run_uuid = ''r1'',
        run_contact = Some \<lparr>contact_uuid = ''c1'', contact_name = ''Ann'', contact_channel = None\<rparr>,
        run_results = []\<rparr>
       \<lparr>step_uuid = ''s1'', step_node = ''n1''\<rparr> []))
     = [\<lparr>created_on = env_Now test_env,
         body = ContactChannelChanged
           (Some \<lparr>channel_uuid = ''4bb288a0'', channel_name = ''Facebook''\<rparr>)\<rparr>]"
  using SetContactChannelAction_Execute_appends [of "env_Now test_env"
      "\<lparr>action_uuid = ''8eebd020'',
        Channel = Some \<lparr>channel_uuid = ''4bb288a0'', channel_name = ''Facebook''\<rparr>\<rparr>"
      "\<lparr>run_uuid = ''r1'', run_contact = None, run_results = []\<rparr>"
      "\<lparr>step_uuid = ''s1'', step_node = ''n1''\<rparr>" "[]"]
    SetContactChannelAction_Execute_appends [of "env_Now test_env"
      "\<lparr>action_uuid = ''8eebd020'',
        Channel = Some \<lparr>channel_uuid = ''4bb288a0'', channel_name = ''Facebook''\<rparr>\<rparr>"
      "\<lparr>run_uuid = ''r1'',
        run_contact = Some \<lparr>contact_uuid = ''c1'', contact_name = ''Ann'', contact_channel = None\<rparr>,
        run_results = []\<rparr>"
      "\<lparr>step_uuid = ''s1'', step_node = ''n1''\<rparr>" "[]"]
  by simp

section \<open>Beginning a wait\<close>

lemma sint_Second: "sint Second = 1000000000"
  by (simp add: Second_def)

lemma sint_Second_mult:
  assumes "- 9223372036 \<le> sint (t :: 64 word)" "sint t \<le> 9223372036"
  shows "sint (Second * t) = 1000000000 * sint t"
proof -
  have "sint (Second * t) = signed_take_bit 63 (sint Second * sint t)"
    by (simp add: sint_word_ariths)
  also have "\<dots> = signed_take_bit 63 (1000000000 * sint t)"
    by (simp add: sint_Second)
  also have "\<dots> = 1000000000 * sint t"
    using assms by (intro signed_take_bit_int_eq_self) simp_all
  finally show ?thesis .
qed

text \<open>
  Claim C8, as the code has it. When the wait carries a timeout of \<open>t\<close> seconds and
  \<open>t\<close> seconds fit a duration (at most 9223372036 seconds in either direction),
  beginning the wait sets \<open>timeout_on\<close> to the time of the start of the wait, in UTC,
  plus \<open>t\<close> seconds. Beginning a wait that carries no timeout changes nothing; its
  \<open>timeout_on\<close> stays unset.
\<close>

theorem baseTimeoutWait_Begin_timeout_on:
  "(wait_Timeout w = Some t \<and> - 9223372036 \<le> sint t \<and> sint t \<le> 9223372036 \<longrightarrow>
      baseTimeoutWait_TimeoutOn (baseTimeoutWait_Begin now w run)
        = Some \<lparr>unix_nsec = unix_nsec now + sint t * 1000000000, location = UTC\<rparr> \<and>
      baseTimeoutWait_Timeout (baseTimeoutWait_Begin now w run) = Some t) \<and>
   (wait_Timeout w = None \<longrightarrow>
      baseTimeoutWait_Begin now w run = w \<and>
      (wait_TimeoutOn w = None \<longrightarrow> baseTimeoutWait_TimeoutOn (baseTimeoutWait_Begin now w run) = None))"
proof -
  have some: "baseTimeoutWait_TimeoutOn (baseTimeoutWait_Begin now w run)
        = Some \<lparr>unix_nsec = unix_nsec now + sint t * 1000000000, location = UTC\<rparr> \<and>
      baseTimeoutWait_Timeout (baseTimeoutWait_Begin now w run) = Some t"
    if "wait_Timeout w = Some t" "- 9223372036 \<le> sint t" "sint t \<le> 9223372036"
    using that sint_Second_mult [of t]
    by (simp add: baseTimeoutWait_Begin_def baseWait_Begin_def Time_Add_def Time_UTC_def
          baseTimeoutWait_TimeoutOn_def baseTimeoutWait_Timeout_def)
  have none: "baseTimeoutWait_Begin now w run = w" if "wait_Timeout w = None"
    using that by (simp add: baseTimeoutWait_Begin_def baseWait_Begin_def)
  show ?thesis using some none by (auto simp: baseTimeoutWait_TimeoutOn_def)
qed

theorem baseTimeoutWait_Begin_timeout_on_witness:
  "baseTimeoutWait_TimeoutOn (baseTimeoutWait_Begin \<lparr>unix_nsec = 1523471070000000000, location = Guayaquil\<rparr>
       \<lparr>wait_Timeout = Some 300, wait_TimeoutOn = None\<rparr>
       \<lparr>run_uuid = ''r1'', run_contact = None, run_results = []\<rparr>)
     = Some \<lparr>unix_nsec = 1523471370000000000, location = UTC\<rparr> \<and>
   baseTimeoutWait_TimeoutOn (baseTimeoutWait_Begin \<lparr>unix_nsec = 1523471070000000000, location = Guayaquil\<rparr>
       \<lparr>wait_Timeout = None, wait_TimeoutOn = None\<rparr>
       \<lparr>run_uuid = ''r1'', run_contact = None, run_results = []\<rparr>)
     = None"
  using baseTimeoutWait_Begin_timeout_on [of "\<lparr>wait_Timeout = Some 300, wait_TimeoutOn = None\<rparr>"
      300 "\<lparr>unix_nsec = 1523471070000000000, location = Guayaquil\<rparr>"
      "\<lparr>run_uuid = ''r1'', run_contact = None, run_results = []\<rparr>"]
    baseTimeoutWait_Begin_timeout_on [of "\<lparr>wait_Timeout = None, wait_TimeoutOn = None\<rparr>"
      300 "\<lparr>unix_nsec = 1523471070000000000, location = Guayaquil\<rparr>"
      "\<lparr>run_uuid = ''r1'', run_contact = None, run_results = []\<rparr>"]
  by (simp add: baseTimeoutWait_TimeoutOn_def)

text \<open>
  The claim as it was stated fails for a timeout whose nanoseconds overflow 64 bits:
  with a timeout of 10000000000 seconds the wait times out 8446744073 seconds
  \<^emph>\<open>before\<close> it starts.
\<close>

theorem baseTimeoutWait_Begin_timeout_on_counterexample:
  "baseTimeoutWait_TimeoutOn (baseTimeoutWait_Begin \<lparr>unix_nsec = 1523471070000000000, location = UTC\<rparr>
       \<lparr>wait_Timeout = Some 10000000000, wait_TimeoutOn = None\<rparr>
       \<lparr>run_uuid = ''r1'', run_contact = None, run_results = []\<rparr>)
     = Some \<lparr>unix_nsec = 1523471070000000000 - 8446744073709551616, location = UTC\<rparr> \<and>
   baseTimeoutWait_TimeoutOn (baseTimeoutWait_Begin \<lparr>unix_nsec = 1523471070000000000, location = UTC\<rparr>
       \<lparr>wait_Timeout = Some 10000000000, wait_TimeoutOn = None\<rparr>
       \<lparr>run_uuid = ''r1'', run_contact = None, run_results = []\<rparr>)
     \<noteq> Some \<lparr>unix_nsec = 1523471070000000000 + 10000000000 * 1000000000, location = UTC\<rparr>"
  by (simp add: baseTimeoutWait_Begin_def baseWait_Begin_def Time_Add_def Time_UTC_def
        Second_def baseTimeoutWait_TimeoutOn_def)

section \<open>Migrating references to extra\<close>

lemma strings_Join_step:
  "strings_Join ((p @ sep @ k) # ks) sep = strings_Join (p # k # ks) sep"
  by (cases ks) simp_all

lemma extraMapper_Resolve_nonempty:
  "p \<noteq> [] \<Longrightarrow>
   extraMapper_Resolve \<lparr>path = p, extraAs = mode\<rparr> key
     = ItemExtraMapper \<lparr>path = p @ ''.'' @ key, extraAs = mode\<rparr>"
  by (simp add: extraMapper_Resolve_def)

lemma extraMapper_Resolve_first:
  "key \<noteq> ''flow'' \<Longrightarrow>
   extraMapper_Resolve \<lparr>path = [], extraAs = mode\<rparr> key
     = ItemExtraMapper \<lparr>path = key, extraAs = mode\<rparr>"
  by (simp add: extraMapper_Resolve_def)

lemma resolve_path_extra:
  "p \<noteq> [] \<Longrightarrow>
   resolve_path (ItemExtraMapper \<lparr>path = p, extraAs = mode\<rparr>) ks
     = Some (ItemExtraMapper \<lparr>path = strings_Join (p # ks) ''.'', extraAs = mode\<rparr>)"
proof (induction ks arbitrary: p)
  case Nil
  then show ?case by simp
next
  case (Cons k ks)
  have "resolve_path (ItemExtraMapper \<lparr>path = p, extraAs = mode\<rparr>) (k # ks)
      = resolve_path (ItemExtraMapper \<lparr>path = p @ ''.'' @ k, extraAs = mode\<rparr>) ks"
    using Cons.prems by (simp add: item_Resolve_def extraMapper_Resolve_nonempty)
  also have "\<dots> = Some (ItemExtraMapper
      \<lparr>path = strings_Join ((p @ ''.'' @ k) # ks) ''.'', extraAs = mode\<rparr>)"
    using Cons.prems by (intro Cons.IH) simp
  finally show ?case by (simp only: strings_Join_step)
qed

lemma Resolve_top_extra:
  "strings_ToLower ident = ''extra'' \<Longrightarrow>
   varMapper_Resolve (newMigrationVarMapper schemes mode) ident
     = ItemExtraMapper \<lparr>path = [], extraAs = mode\<rparr>"
  by (simp add: varMapper_Resolve_def newMigrationVarMapper_def)

lemma migrate_extra:
  assumes "strings_ToLower ident = ''extra''" "k \<noteq> []" "k \<noteq> ''flow''"
  shows "migrate_reference schemes mode (ident # k # ks)
    = Some (extraMapper_String \<lparr>path = strings_Join (k # ks) ''.'', extraAs = mode\<rparr>)"
  using assms
  by (simp add: migrate_reference_def item_Resolve_def Resolve_top_extra
        extraMapper_Resolve_first resolve_path_extra item_String_def)

text \<open>
  Claim C4, as the code has it. A legacy reference \<open>extra.<path>\<close> whose first path
  segment is not \<open>flow\<close> (and is not empty) is rewritten by the mode of the flow:
  \<open>webhook_json\<close> gives \<open>run.webhook.json.<path>\<close>, \<open>trigger_params\<close> gives
  \<open>trigger.params.<path>\<close>, and \<open>function\<close> gives
  \<open>if(is_error(run.webhook.json.<path>), trigger.params.<path>, run.webhook.json.<path>)\<close>.
  In particular \<open>extra.coupon\<close> with mode \<open>trigger_params\<close> becomes
  \<open>trigger.params.coupon\<close>.
\<close>

theorem migrate_extra_reference:
  "(strings_ToLower ident = ''extra'' \<and> k \<noteq> [] \<and> k \<noteq> ''flow'' \<longrightarrow>
      migrate_reference schemes ExtraAsWebhookJSON (ident # k # ks)
        = Some (''run.webhook.json.'' @ strings_Join (k # ks) ''.'') \<and>
      migrate_reference schemes ExtraAsTriggerParams (ident # k # ks)
        = Some (''trigger.params.'' @ strings_Join (k # ks) ''.'') \<and>
      migrate_reference schemes ExtraAsFunction (ident # k # ks)
        = Some (''if(is_error(run.webhook.json.'' @ strings_Join (k # ks) ''.''
                  @ ''), trigger.params.'' @ strings_Join (k # ks) ''.''
                  @ '', run.webhook.json.'' @ strings_Join (k # ks) ''.'' @ '')'')) \<and>
   migrate_reference schemes ExtraAsTriggerParams [''extra'', ''coupon'']
     = Some ''trigger.params.coupon''"
proof -
  have "migrate_reference schemes ExtraAsTriggerParams [''extra'', ''coupon'']
      = Some ''trigger.params.coupon''"
    using migrate_extra [of "''extra''" "''coupon''" schemes ExtraAsTriggerParams "[]"]
    by (simp add: strings_ToLower_def to_lower_byte_def extraMapper_String_def)
  then show ?thesis
    using migrate_extra [of ident k schemes _ ks] by (simp add: extraMapper_String_def)
qed

theorem migrate_extra_reference_witness:
  "migrate_reference [''tel'', ''mailto''] ExtraAsWebhookJSON [''Extra'', ''order'', ''id'']
     = Some ''run.webhook.json.order.id'' \<and>
   migrate_reference [''tel'', ''mailto''] ExtraAsTriggerParams [''Extra'', ''order'', ''id'']
     = Some ''trigger.params.order.id'' \<and>
   migrate_reference [''tel'', ''mailto''] ExtraAsFunction [''Extra'', ''order'', ''id'']
     = Some ''if(is_error(run.webhook.json.order.id), trigger.params.order.id, run.webhook.json.order.id)''"
  using migrate_extra_reference [of "''Extra''" "''order''" "[''tel'', ''mailto'']" "[''id'']"]
  by (simp add: strings_ToLower_def to_lower_byte_def char_of_eq_iff)

text \<open>
  The claim as it was stated fails for the paths that start with \<open>flow\<close>: whatever
  the mode, \<open>extra.flow.age\<close> is rewritten to a result of the parent run.
\<close>

theorem migrate_extra_reference_counterexample:
  "migrate_reference [''tel'', ''mailto''] ExtraAsTriggerParams [''extra'', ''flow'', ''age'']
     = Some ''parent.results.age'' \<and>
   migrate_reference [''tel'', ''mailto''] ExtraAsTriggerParams [''extra'', ''flow'', ''age'']
     \<noteq> Some ''trigger.params.flow.age''"
  by (simp add: migrate_reference_def item_Resolve_def newMigrationVarMapper_def
        varMapper_Resolve_def extraMapper_Resolve_def item_String_def varMapper_String_def
        strings_ToLower_def to_lower_byte_def)

section \<open>Slices of words\<close>




lemma ToInteger_XNumber: "ToInteger cv (XNumber n) = integer_of cv n"
  by (simp add: ToInteger_def ToXNumber_def)





section \<open>Dates from parts and differences of dates\<close>

lemma local_day_Time_Date:
  assumes "1 \<le> month" "month \<le> 12"
  shows "local_day (Time_Date year month day 0 0 0 0 loc) = days_from_civil year month day"
proof -
  have m: "(month - 1) div 12 = 0" "(month - 1) mod 12 + 1 = month"
    using assms by simp_all
  show ?thesis
    by (simp add: local_day_def Time_Date_def Let_def m)
qed

lemma midnight_Time_Date:
  "(unix_nsec (Time_Date year month day 0 0 0 0 loc) div 1000000000 + loc_offset loc) mod 86400 = 0"
  "unix_nsec (Time_Date year month day 0 0 0 0 loc) mod 1000000000 = 0"
  by (simp_all add: Time_Date_def Let_def)

lemma days_from_civil_day:
  "days_from_civil year month day = days_from_civil year month 1 + (day - 1)"
  by (simp add: days_from_civil_def)

lemma civil_2017_03_03: "civil_from_days (days_from_civil 2017 2 31) = (2017, 3, 3)"
  by code_simp

lemma civil_2017_01_17: "civil_from_days (days_from_civil 2017 1 17) = (2017, 1, 17)"
  by code_simp

lemma civil_2015_12_17: "civil_from_days (days_from_civil 2015 12 17) = (2015, 12, 17)"
  by code_simp

lemma DateTimeFromParts_three:
  assumes "ToInteger cv a0 = Inr year" "ToInteger cv a1 = Inr month" "ToInteger cv a2 = Inr day"
  shows "DateTimeFromParts cv env [a0, a1, a2] =
    Some (if month < 1 \<or> month > 12 then XError ''invalid value for month, must be 1-12''
          else XDateTime (Time_Date year month day 0 0 0 0 (env_Timezone env)))"
  using assms by (simp add: DateTimeFromParts_def)

lemma go_quot_truncated:
  assumes "0 < u"
  shows "truncated_toward_zero (go_quot d u) d u"
proof -
  have q: "go_quot d u = sgn d * (\<bar>d\<bar> div u)"
    using assms by (simp add: go_quot_def)
  have nn: "0 \<le> \<bar>d\<bar> div u" using assms by (simp add: pos_imp_zdiv_nonneg_iff)
  have a: "\<bar>go_quot d u\<bar> = \<bar>d\<bar> div u"
  proof (cases "d = 0")
    case True then show ?thesis by (simp add: go_quot_def)
  next
    case False
    then have "\<bar>sgn d\<bar> = 1" by (simp add: sgn_if)
    then show ?thesis using nn by (simp add: q abs_mult)
  qed
  have dm: "\<bar>d\<bar> div u * u + \<bar>d\<bar> mod u = \<bar>d\<bar>"
    by (rule div_mult_mod_eq)
  have m0: "0 \<le> \<bar>d\<bar> mod u" and m1: "\<bar>d\<bar> mod u < u"
    using assms by simp_all
  have lo: "(\<bar>d\<bar> div u) * u \<le> \<bar>d\<bar>"
    using dm m0 by linarith
  have ex: "(\<bar>d\<bar> div u + 1) * u = \<bar>d\<bar> div u * u + u"
    by (simp add: algebra_simps)
  have hi: "\<bar>d\<bar> < (\<bar>d\<bar> div u + 1) * u"
    using dm m1 ex by linarith
  have sg: "0 \<le> go_quot d u * d"
  proof -
    have "go_quot d u * d = (\<bar>d\<bar> div u) * (sgn d * d)" by (simp add: q)
    also have "sgn d * d = \<bar>d\<bar>" by (simp add: sgn_if)
    finally show ?thesis using nn by simp
  qed
  show ?thesis using a lo hi sg by (simp add: truncated_toward_zero_def)
qed

lemma Time_Sub_exact:
  assumes "- (2 ^ 63) \<le> unix_nsec a - unix_nsec b" "unix_nsec a - unix_nsec b < 2 ^ 63"
  shows "sint (Time_Sub a b) = unix_nsec a - unix_nsec b"
proof -
  have "Time_Sub a b = word_of_int (unix_nsec a - unix_nsec b)"
    using assms by (simp add: Time_Sub_def Let_def)
  moreover have "sint (word_of_int (unix_nsec a - unix_nsec b) :: 64 word)
      = signed_take_bit 63 (unix_nsec a - unix_nsec b)"
    unfolding sint_sbintrunc' by simp
  moreover have "signed_take_bit 63 (unix_nsec a - unix_nsec b) = unix_nsec a - unix_nsec b"
    using assms by (intro signed_take_bit_int_eq_self) simp_all
  ultimately show ?thesis by simp
qed

lemma DateTimeDiff_unit:
  "DateTimeDiff cv env [XDateTime a, XDateTime b, XText unit] =
    (let duration = Time_Sub a b in
     if unit = ''s'' then NewXNumberFromInt (Duration_quot duration Second)
     else if unit = ''m'' then NewXNumberFromInt (Duration_quot duration Minute)
     else if unit = ''h'' then NewXNumberFromInt (Duration_quot duration Hour)
     else if unit = ''D'' then NewXNumberFromInt (DaysBetween a b)
     else if unit = ''W'' then NewXNumberFromInt (go_quot (DaysBetween a b) 7)
     else if unit = ''M'' then NewXNumberFromInt (MonthsBetween a b)
     else if unit = ''Y'' then NewXNumberFromInt (Time_Year a - Time_Year b)
     else XError (''unknown unit: '' @ unit @ '', must be one of s, m, h, D, W, M, Y''))"
  by (simp add: DateTimeDiff_def ToXDateTime_def ToXText_def)

lemma sint_units:
  "sint Second = 1000000000" "sint Minute = 60000000000" "sint Hour = 3600000000000"
  by (simp_all add: Second_def Minute_def Hour_def)

text \<open>
  Claim C3. When the three arguments convert to integers, \<open>datetime_from_parts(year,
  month, day)\<close> returns an Error exactly when the month is outside 1 to 12. Any day is
  accepted: the result is midnight, in the timezone of the environment, of the day that
  lies \<open>day - 1\<close> days after the first of the month, so that a day beyond the end of
  the month runs on into the following month; \<open>datetime_from_parts(2017, 2, 31)\<close> is
  the third of March 2017.
\<close>

theorem DateTimeFromParts_month_range:
  "(ToInteger cv a0 = Inr year \<and> ToInteger cv a1 = Inr month \<and> ToInteger cv a2 = Inr day \<longrightarrow>
      (\<exists>v. DateTimeFromParts cv env [a0, a1, a2] = Some v \<and>
           (IsXError v \<longleftrightarrow> month < 1 \<or> 12 < month)) \<and>
      (1 \<le> month \<and> month \<le> 12 \<longrightarrow>
         (\<exists>t. DateTimeFromParts cv env [a0, a1, a2] = Some (XDateTime t) \<and>
              location t = env_Timezone env \<and>
              local_day t = days_from_civil year month 1 + (day - 1) \<and>
              (unix_nsec t div 1000000000 + loc_offset (location t)) mod 86400 = 0 \<and>
              unix_nsec t mod 1000000000 = 0))) \<and>
   (integer_of cv 2017 = Inr 2017 \<and> integer_of cv 2 = Inr 2 \<and> integer_of cv 31 = Inr 31 \<longrightarrow>
      (\<exists>t. DateTimeFromParts cv env [XNumber 2017, XNumber 2, XNumber 31] = Some (XDateTime t) \<and>
           Time_Year t = 2017 \<and> Time_Month t = 3 \<and> Time_Day t = 3))"
proof -
  have gen: "(\<exists>v. DateTimeFromParts cv env [a0, a1, a2] = Some v \<and>
           (IsXError v \<longleftrightarrow> month < 1 \<or> 12 < month)) \<and>
      (1 \<le> month \<and> month \<le> 12 \<longrightarrow>
         (\<exists>t. DateTimeFromParts cv env [a0, a1, a2] = Some (XDateTime t) \<and>
              location t = env_Timezone env \<and>
              local_day t = days_from_civil year month 1 + (day - 1) \<and>
              (unix_nsec t div 1000000000 + loc_offset (location t)) mod 86400 = 0 \<and>
              unix_nsec t mod 1000000000 = 0))"
    if c: "ToInteger cv a0 = Inr year" "ToInteger cv a1 = Inr month" "ToInteger cv a2 = Inr day"
  proof (cases "1 \<le> month \<and> month \<le> 12")
    case True
    let ?t = "Time_Date year month day 0 0 0 0 (env_Timezone env)"
    have r: "DateTimeFromParts cv env [a0, a1, a2] = Some (XDateTime ?t)"
      using DateTimeFromParts_three [OF c, of env] True by simp
    have l: "location ?t = env_Timezone env"
      by (simp add: Time_Date_def Let_def)
    have d: "local_day ?t = days_from_civil year month 1 + (day - 1)"
      using True local_day_Time_Date [of month year day "env_Timezone env"]
        days_from_civil_day [of year month day] by simp
    have m: "(unix_nsec ?t div 1000000000 + loc_offset (location ?t)) mod 86400 = 0"
      "unix_nsec ?t mod 1000000000 = 0"
      using midnight_Time_Date [of year month day "env_Timezone env"] l by simp_all
    show ?thesis using True r l d m by (simp add: IsXError_def)
  next
    case False
    then have "DateTimeFromParts cv env [a0, a1, a2]
        = Some (XError ''invalid value for month, must be 1-12'')"
      using DateTimeFromParts_three [OF c, of env] by auto
    then show ?thesis using False by (auto simp: IsXError_def)
  qed
  have ex: "\<exists>t. DateTimeFromParts cv env [XNumber 2017, XNumber 2, XNumber 31] = Some (XDateTime t) \<and>
           Time_Year t = 2017 \<and> Time_Month t = 3 \<and> Time_Day t = 3"
    if i: "integer_of cv 2017 = Inr 2017" "integer_of cv 2 = Inr 2" "integer_of cv 31 = Inr 31"
  proof -
    let ?t = "Time_Date 2017 2 31 0 0 0 0 (env_Timezone env)"
    have r: "DateTimeFromParts cv env [XNumber 2017, XNumber 2, XNumber 31] = Some (XDateTime ?t)"
      using DateTimeFromParts_three [of cv "XNumber 2017" 2017 "XNumber 2" 2 "XNumber 31" 31 env] i
      by (simp add: ToInteger_XNumber)
    have "local_day ?t = days_from_civil 2017 2 31"
      by (rule local_day_Time_Date) simp_all
    then have "civil_from_days (local_day ?t) = (2017, 3, 3)"
      by (simp only: civil_2017_03_03)
    then have "Time_Year ?t = 2017 \<and> Time_Month ?t = 3 \<and> Time_Day ?t = 3"
      by (simp add: Time_Year_def Time_Month_def Time_Day_def)
    then show ?thesis using r by blast
  qed
  show ?thesis using gen ex by blast
qed

theorem DateTimeFromParts_month_range_witness:
  "DateTimeFromParts strict_conv test_env [XNumber 2017, XNumber 13, XNumber 15]
     = Some (XError ''invalid value for month, must be 1-12'') \<and>
   DateTimeFromParts strict_conv test_env [XNumber 2017, XNumber 2, XNumber 31]
     = Some (XDateTime \<lparr>unix_nsec = 1488517200000000000, location = Guayaquil\<rparr>) \<and>
   local_day \<lparr>unix_nsec = 1488517200000000000, location = Guayaquil\<rparr>
     = days_from_civil 2017 2 1 + 30 \<and>
   Time_Year \<lparr>unix_nsec = 1488517200000000000, location = Guayaquil\<rparr> = 2017 \<and>
   Time_Month \<lparr>unix_nsec = 1488517200000000000, location = Guayaquil\<rparr> = 3 \<and>
   Time_Day \<lparr>unix_nsec = 1488517200000000000, location = Guayaquil\<rparr> = 3"
proof -
  have e: "DateTimeFromParts strict_conv test_env [XNumber 2017, XNumber 13, XNumber 15]
     = Some (XError ''invalid value for month, must be 1-12'')"
    by (simp add: DateTimeFromParts_def ToInteger_XNumber strict_conv_def)
  have r: "DateTimeFromParts strict_conv test_env [XNumber 2017, XNumber 2, XNumber 31]
     = Some (XDateTime \<lparr>unix_nsec = 1488517200000000000, location = Guayaquil\<rparr>)"
    by (simp add: DateTimeFromParts_def ToInteger_XNumber strict_conv_def test_env_def
          Time_Date_def days_from_civil_def daysBefore_def isLeap_def days_before_year_def
          Guayaquil_def Let_def)
  have i: "ToInteger strict_conv (XNumber 2017) = Inr 2017"
    "ToInteger strict_conv (XNumber 2) = Inr 2" "ToInteger strict_conv (XNumber 31) = Inr 31"
    "integer_of strict_conv 2017 = Inr 2017" "integer_of strict_conv 2 = Inr 2"
    "integer_of strict_conv 31 = Inr 31"
    by (simp_all add: ToInteger_XNumber strict_conv_def)
  show ?thesis
    using DateTimeFromParts_month_range [of strict_conv "XNumber 2017" 2017 "XNumber 2" 2
        "XNumber 31" 31 test_env] e r i
    by auto
qed

text \<open>
  Claim C2. For all datetimes \<open>a\<close> and \<open>b\<close>: \<open>datetime_diff(a, b, unit)\<close> with
  unit \<open>Y\<close> is the year of \<open>a\<close> minus the year of \<open>b\<close>, and with unit \<open>M\<close>
  twelve times that plus the month of \<open>a\<close> minus the month of \<open>b\<close> (calendar counts);
  with \<open>s\<close>, \<open>m\<close> and \<open>h\<close> it is the duration from \<open>b\<close> to \<open>a\<close> divided
  by the second, the minute and the hour, truncated toward zero (the duration is the
  exact difference when that fits 64 bits of nanoseconds); with \<open>D\<close> it is the
  difference of the civil days of the two dates, whatever their times of day, and with
  \<open>W\<close> that difference divided by seven, truncated toward zero. In particular
  \<open>datetime_diff("2017-01-17", "2015-12-17", "Y")\<close> is 2.
\<close>

theorem DateTimeDiff_units:
  "DateTimeDiff cv env [XDateTime a, XDateTime b, XText ''Y'']
     = XNumber (of_int (Time_Year a - Time_Year b)) \<and>
   DateTimeDiff cv env [XDateTime a, XDateTime b, XText ''M'']
     = XNumber (of_int (12 * (Time_Year a - Time_Year b) + (Time_Month a - Time_Month b))) \<and>
   (\<exists>q. DateTimeDiff cv env [XDateTime a, XDateTime b, XText ''s''] = XNumber (of_int q) \<and>
        truncated_toward_zero q (sint (Time_Sub a b)) 1000000000) \<and>
   (\<exists>q. DateTimeDiff cv env [XDateTime a, XDateTime b, XText ''m''] = XNumber (of_int q) \<and>
        truncated_toward_zero q (sint (Time_Sub a b)) 60000000000) \<and>
   (\<exists>q. DateTimeDiff cv env [XDateTime a, XDateTime b, XText ''h''] = XNumber (of_int q) \<and>
        truncated_toward_zero q (sint (Time_Sub a b)) 3600000000000) \<and>
   (- (2 ^ 63) \<le> unix_nsec a - unix_nsec b \<and> unix_nsec a - unix_nsec b < 2 ^ 63 \<longrightarrow>
      sint (Time_Sub a b) = unix_nsec a - unix_nsec b) \<and>
   DateTimeDiff cv env [XDateTime a, XDateTime b, XText ''D'']
     = XNumber (of_int (local_day a - local_day b)) \<and>
   (\<exists>q. DateTimeDiff cv env [XDateTime a, XDateTime b, XText ''W''] = XNumber (of_int q) \<and>
        truncated_toward_zero q (local_day a - local_day b) 7) \<and>
   (local_day a' = local_day a \<and> local_day b' = local_day b \<longrightarrow>
      DateTimeDiff cv env [XDateTime a', XDateTime b', XText ''D'']
        = DateTimeDiff cv env [XDateTime a, XDateTime b, XText ''D'']) \<and>
   DateTimeDiff cv env
       [XDateTime (Time_Date 2017 1 17 0 0 0 0 (env_Timezone env)),
        XDateTime (Time_Date 2015 12 17 0 0 0 0 (env_Timezone env)), XText ''Y'']
     = XNumber 2 \<and>
   (datetime_of cv (XText ''2017-01-17'')
        = Inr (Time_Date 2017 1 17 0 0 0 0 (env_Timezone env)) \<and>
    datetime_of cv (XText ''2015-12-17'')
        = Inr (Time_Date 2015 12 17 0 0 0 0 (env_Timezone env)) \<longrightarrow>
      DateTimeDiff cv env [XText ''2017-01-17'', XText ''2015-12-17'', XText ''Y''] = XNumber 2)"
proof -
  have y: "DateTimeDiff cv env [XDateTime a, XDateTime b, XText ''Y'']
     = XNumber (of_int (Time_Year a - Time_Year b))" for a b
    by (simp add: DateTimeDiff_unit NewXNumberFromInt_def)
  have m: "DateTimeDiff cv env [XDateTime a, XDateTime b, XText ''M'']
     = XNumber (of_int (12 * (Time_Year a - Time_Year b) + (Time_Month a - Time_Month b)))"
    by (simp add: DateTimeDiff_unit NewXNumberFromInt_def MonthsBetween_def)
  have s: "\<exists>q. DateTimeDiff cv env [XDateTime a, XDateTime b, XText ''s''] = XNumber (of_int q) \<and>
        truncated_toward_zero q (sint (Time_Sub a b)) 1000000000"
    using go_quot_truncated [of 1000000000 "sint (Time_Sub a b)"]
    by (simp add: DateTimeDiff_unit NewXNumberFromInt_def Duration_quot_def sint_units)
  have mi: "\<exists>q. DateTimeDiff cv env [XDateTime a, XDateTime b, XText ''m''] = XNumber (of_int q) \<and>
        truncated_toward_zero q (sint (Time_Sub a b)) 60000000000"
    using go_quot_truncated [of 60000000000 "sint (Time_Sub a b)"]
    by (simp add: DateTimeDiff_unit NewXNumberFromInt_def Duration_quot_def sint_units)
  have h: "\<exists>q. DateTimeDiff cv env [XDateTime a, XDateTime b, XText ''h''] = XNumber (of_int q) \<and>
        truncated_toward_zero q (sint (Time_Sub a b)) 3600000000000"
    using go_quot_truncated [of 3600000000000 "sint (Time_Sub a b)"]
    by (simp add: DateTimeDiff_unit NewXNumberFromInt_def Duration_quot_def sint_units)
  have d: "DateTimeDiff cv env [XDateTime a, XDateTime b, XText ''D'']
     = XNumber (of_int (local_day a - local_day b))" for a b
    by (simp add: DateTimeDiff_unit NewXNumberFromInt_def DaysBetween_def)
  have w: "\<exists>q. DateTimeDiff cv env [XDateTime a, XDateTime b, XText ''W''] = XNumber (of_int q) \<and>
        truncated_toward_zero q (local_day a - local_day b) 7"
    using go_quot_truncated [of 7 "local_day a - local_day b"]
    by (simp add: DateTimeDiff_unit NewXNumberFromInt_def DaysBetween_def)
  have y1: "Time_Year (Time_Date 2017 1 17 0 0 0 0 (env_Timezone env)) = 2017"
    using local_day_Time_Date [of 1 2017 17 "env_Timezone env"]
    by (simp add: Time_Year_def civil_2017_01_17)
  have y2: "Time_Year (Time_Date 2015 12 17 0 0 0 0 (env_Timezone env)) = 2015"
    using local_day_Time_Date [of 12 2015 17 "env_Timezone env"]
    by (simp add: Time_Year_def civil_2015_12_17)
  have ex: "DateTimeDiff cv env
       [XDateTime (Time_Date 2017 1 17 0 0 0 0 (env_Timezone env)),
        XDateTime (Time_Date 2015 12 17 0 0 0 0 (env_Timezone env)), XText ''Y'']
     = XNumber 2"
    by (simp only: y y1 y2) simp
  have tx: "DateTimeDiff cv env [XText ''2017-01-17'', XText ''2015-12-17'', XText ''Y''] = XNumber 2"
    if "datetime_of cv (XText ''2017-01-17'')
        = Inr (Time_Date 2017 1 17 0 0 0 0 (env_Timezone env))"
      "datetime_of cv (XText ''2015-12-17'')
        = Inr (Time_Date 2015 12 17 0 0 0 0 (env_Timezone env))"
    using that y1 y2
    by (simp add: DateTimeDiff_def ToXDateTime_def ToXText_def NewXNumberFromInt_def)
  show ?thesis
    using y [of a b] m s mi h Time_Sub_exact [of a b] d [of a b] d [of a' b'] w ex tx
    by simp
qed

theorem DateTimeDiff_units_witness:
  "DateTimeDiff
       (strict_conv\<lparr>datetime_of :=
          (\<lambda>x. if x = XText ''2017-01-17'' then Inr (Time_Date 2017 1 17 0 0 0 0 Guayaquil)
               else if x = XText ''2015-12-17'' then Inr (Time_Date 2015 12 17 0 0 0 0 Guayaquil)
               else Inl ''not a datetime'')\<rparr>)
       test_env [XText ''2017-01-17'', XText ''2015-12-17'', XText ''Y'']
     = XNumber 2 \<and>
   sint (Time_Sub (Time_Date 2017 1 17 10 50 0 0 Guayaquil) (Time_Date 2017 1 17 12 30 0 0 Guayaquil))
     = - 6000000000000"
proof -
  have r: "- (2 ^ 63) \<le> unix_nsec (Time_Date 2017 1 17 10 50 0 0 Guayaquil)
        - unix_nsec (Time_Date 2017 1 17 12 30 0 0 Guayaquil) \<and>
      unix_nsec (Time_Date 2017 1 17 10 50 0 0 Guayaquil)
        - unix_nsec (Time_Date 2017 1 17 12 30 0 0 Guayaquil) < 2 ^ 63 \<and>
      unix_nsec (Time_Date 2017 1 17 10 50 0 0 Guayaquil)
        - unix_nsec (Time_Date 2017 1 17 12 30 0 0 Guayaquil) = - 6000000000000"
    by (simp add: Time_Date_def Let_def)
  show ?thesis
    using DateTimeDiff_units [of
        "strict_conv\<lparr>datetime_of :=
          (\<lambda>x. if x = XText ''2017-01-17'' then Inr (Time_Date 2017 1 17 0 0 0 0 Guayaquil)
               else if x = XText ''2015-12-17'' then Inr (Time_Date 2015 12 17 0 0 0 0 Guayaquil)
               else Inl ''not a datetime'')\<rparr>"
        test_env "Time_Date 2017 1 17 10 50 0 0 Guayaquil" "Time_Date 2017 1 17 12 30 0 0 Guayaquil"
        "Time_Date 2017 1 17 10 50 0 0 Guayaquil" "Time_Date 2017 1 17 12 30 0 0 Guayaquil"] r
    by (simp add: test_env_def)
qed

end
